theory Spec2Isabelle
  imports Complex_Main "HOL-Library.AList"
begin

text \<open>
  A shallow embedding of the translation core of ML2Mongo: the class
  \<open>XQueryToMongoCRUDConverter\<close> of \<open>conversion.py\<close>, which turns one CRUD statement into the
  dictionary of a MongoDB operation, and the function \<open>convert_xquery_to_mongo\<close> of
  \<open>xquery_to_mongo.py\<close>. A method \<open>_name\<close> of the class is the function \<open>name\<close> here. A
  raised exception is the left summand of the result. The converter object is passed
  in and handed back where its attribute is assigned. The calls of \<open>re\<close> are evaluated
  on syntax trees of the patterns of the source; \<open>json.loads\<close>, \<open>etree.fromstring\<close> and
  \<open>eval\<close> are parameters.
\<close>

section \<open>Characters and strings as Python sees them\<close>

text \<open>
  A statement is a Python \<open>str\<close>. The model takes a character to be a code point in
  the range 0..255 (Latin-1), so the classification predicates below list every code
  point of that range for which the Python predicate holds.
\<close>

text \<open>\<open>str.isspace\<close> on one character; also the class \<open>\s\<close> of \<open>re\<close>.\<close>

definition isspace :: "char \<Rightarrow> bool" where
  "isspace ch = (let n = (of_char ch :: nat) in
     (9 \<le> n \<and> n \<le> 13) \<or> (28 \<le> n \<and> n \<le> 32) \<or> n = 133 \<or> n = 160)"

text \<open>\<open>str.isalnum\<close> on one character; with the underscore it is the class \<open>\w\<close>.\<close>

definition isalnum :: "char \<Rightarrow> bool" where
  "isalnum ch = (let n = (of_char ch :: nat) in
     (48 \<le> n \<and> n \<le> 57) \<or> (65 \<le> n \<and> n \<le> 90) \<or> (97 \<le> n \<and> n \<le> 122) \<or>
     n = 170 \<or> n = 178 \<or> n = 179 \<or> n = 181 \<or> n = 185 \<or> n = 186 \<or>
     (188 \<le> n \<and> n \<le> 190) \<or> (192 \<le> n \<and> n \<le> 214) \<or>
     (216 \<le> n \<and> n \<le> 246) \<or> (248 \<le> n \<and> n \<le> 255))"

text \<open>The decimal digits \<open>0\<close> to \<open>9\<close>, the only characters \<open>int()\<close> reads.\<close>

definition isdecimal_chr :: "char \<Rightarrow> bool" where
  "isdecimal_chr ch = (let n = (of_char ch :: nat) in 48 \<le> n \<and> n \<le> 57)"

text \<open>
  \<open>str.isdigit\<close> on one character: the decimal digits and the superscript digits
  (code points 178, 179 and 185), which \<open>int()\<close> rejects.
\<close>

definition isdigit_chr :: "char \<Rightarrow> bool" where
  "isdigit_chr ch = (let n = (of_char ch :: nat) in
     (48 \<le> n \<and> n \<le> 57) \<or> n = 178 \<or> n = 179 \<or> n = 185)"

definition isdigit :: "string \<Rightarrow> bool" where
  "isdigit s = (s \<noteq> [] \<and> list_all isdigit_chr s)"

definition lower_chr :: "char \<Rightarrow> char" where
  "lower_chr ch = (let n = (of_char ch :: nat) in
     if (65 \<le> n \<and> n \<le> 90) \<or> (192 \<le> n \<and> n \<le> 214) \<or> (216 \<le> n \<and> n \<le> 222)
     then char_of (n + 32) else ch)"

definition lower :: "string \<Rightarrow> string" where
  "lower s = map lower_chr s"

definition strip :: "string \<Rightarrow> string" where
  "strip s = rev (dropWhile isspace (rev (dropWhile isspace s)))"

text \<open>\<open>s.strip(chars)\<close>: the characters of \<open>chars\<close> are removed from both ends.\<close>

definition strip_chars :: "string \<Rightarrow> string \<Rightarrow> string" where
  "strip_chars chars s =
     rev (dropWhile (\<lambda>ch. ch \<in> set chars) (rev (dropWhile (\<lambda>ch. ch \<in> set chars) s)))"

definition startswith :: "string \<Rightarrow> string \<Rightarrow> bool" where
  "startswith s p = (take (length p) s = p)"

definition endswith :: "string \<Rightarrow> string \<Rightarrow> bool" where
  "endswith s p = (length p \<le> length s \<and> drop (length s - length p) s = p)"

text \<open>\<open>s.replace(a, b)\<close> for single characters \<open>a\<close> and \<open>b\<close>.\<close>

definition replace_chr :: "char \<Rightarrow> char \<Rightarrow> string \<Rightarrow> string" where
  "replace_chr a b s = map (\<lambda>ch. if ch = a then b else ch) s"

text \<open>\<open>p in s\<close> for strings: \<open>p\<close> occurs in \<open>s\<close> as a contiguous block.\<close>

fun contains_str :: "string \<Rightarrow> string \<Rightarrow> bool" where
  "contains_str p [] = (p = [])"
| "contains_str p (x # xs) = (startswith (x # xs) p \<or> contains_str p xs)"

text \<open>\<open>s[1:-1]\<close>.\<close>

definition slice_1_m1 :: "string \<Rightarrow> string" where
  "slice_1_m1 s = butlast (tl s)"

section \<open>The regular expressions of \<open>re\<close>\<close>

text \<open>
  The patterns of the source are kept as syntax trees and matched by a backtracking
  matcher that lists the ways a pattern can match at a position in the order in which
  \<open>re\<close> tries them: alternatives left to right, a greedy repetition longest first, a
  lazy repetition shortest first. The first element of the list is the match \<open>re\<close>
  reports. No repeated sub-pattern of the source can match the empty string, so a
  repetition only goes on after an iteration that consumed a character.
\<close>

datatype flag = IGNORECASE | DOTALL

datatype cset = C char | Rng char char | WS | Wd

datatype rx =
    Lit char
  | Dot
  | Cls "cset list"
  | NCls "cset list"
  | Seq rx rx
  | Alt rx rx
  | Star rx
  | LStar rx
  | Grp nat rx
  | Bol
  | Dollar
  | EndZ
  | Eps

fun in_cset :: "char \<Rightarrow> cset \<Rightarrow> bool" where
  "in_cset ch (C x) = (ch = x)"
| "in_cset ch (Rng a b) = ((of_char a :: nat) \<le> of_char ch \<and> (of_char ch :: nat) \<le> of_char b)"
| "in_cset ch WS = isspace ch"
| "in_cset ch Wd = (isalnum ch \<or> ch = CHR ''_'')"

type_synonym caps = "(nat \<times> string) list"

function star_g :: "(string \<Rightarrow> caps \<Rightarrow> (string \<times> caps) list) \<Rightarrow> string \<Rightarrow> caps \<Rightarrow> (string \<times> caps) list" where
  "star_g f s c =
     concat (map (\<lambda>p. if length (fst p) < length s then star_g f (fst p) (snd p) else []) (f s c))
     @ [(s, c)]"
  by pat_completeness auto
termination
  by (relation "measure (\<lambda>(f, s, c). length s)") auto

function star_l :: "(string \<Rightarrow> caps \<Rightarrow> (string \<times> caps) list) \<Rightarrow> string \<Rightarrow> caps \<Rightarrow> (string \<times> caps) list" where
  "star_l f s c =
     (s, c) #
     concat (map (\<lambda>p. if length (fst p) < length s then star_l f (fst p) (snd p) else []) (f s c))"
  by pat_completeness auto
termination
  by (relation "measure (\<lambda>(f, s, c). length s)") auto

declare star_g.simps [simp del] star_l.simps [simp del]

text \<open>
  \<open>ms fl w r s c\<close>: the matches of \<open>r\<close> at the suffix \<open>s\<close> of the subject \<open>w\<close>, each
  as the text left after the match and the groups captured so far.
\<close>

primrec ms :: "flag list \<Rightarrow> string \<Rightarrow> rx \<Rightarrow> string \<Rightarrow> caps \<Rightarrow> (string \<times> caps) list" where
  "ms fl w (Lit x) s c = (case s of [] \<Rightarrow> [] | y # ys \<Rightarrow>
      if y = x \<or> (IGNORECASE \<in> set fl \<and> lower_chr y = lower_chr x) then [(ys, c)] else [])"
| "ms fl w Dot s c = (case s of [] \<Rightarrow> [] | y # ys \<Rightarrow>
      if y = CHR 0x0A then (if DOTALL \<in> set fl then [(ys, c)] else []) else [(ys, c)])"
| "ms fl w (Cls cs) s c = (case s of [] \<Rightarrow> [] | y # ys \<Rightarrow>
      if list_ex (in_cset y) cs then [(ys, c)] else [])"
| "ms fl w (NCls cs) s c = (case s of [] \<Rightarrow> [] | y # ys \<Rightarrow>
      if list_ex (in_cset y) cs then [] else [(ys, c)])"
| "ms fl w (Seq r1 r2) s c = concat (map (\<lambda>p. ms fl w r2 (fst p) (snd p)) (ms fl w r1 s c))"
| "ms fl w (Alt r1 r2) s c = ms fl w r1 s c @ ms fl w r2 s c"
| "ms fl w (Star r) s c = star_g (ms fl w r) s c"
| "ms fl w (LStar r) s c = star_l (ms fl w r) s c"
| "ms fl w (Grp n r) s c =
      map (\<lambda>p. (fst p, (n, take (length s - length (fst p)) s) # snd p)) (ms fl w r s c)"
| "ms fl w Bol s c = (if length s = length w then [(s, c)] else [])"
| "ms fl w Dollar s c = (if s = [] \<or> s = [CHR 0x0A] then [(s, c)] else [])"
| "ms fl w EndZ s c = (if s = [] then [(s, c)] else [])"
| "ms fl w Eps s c = [(s, c)]"

text \<open>Shorthands for writing the patterns down.\<close>

definition seqs :: "rx list \<Rightarrow> rx" where
  "seqs rs = foldr Seq rs Eps"

definition Str :: "string \<Rightarrow> rx" where
  "Str s = foldr (\<lambda>ch r. Seq (Lit ch) r) s Eps"

definition Plus :: "rx \<Rightarrow> rx" where
  "Plus r = Seq r (Star r)"

definition LPlus :: "rx \<Rightarrow> rx" where
  "LPlus r = Seq r (LStar r)"

definition Opt :: "rx \<Rightarrow> rx" where
  "Opt r = Alt r Eps"

text \<open>
  A match object: where the match starts (counted from the text that was searched), the
  text left after it, and the captured groups (the latest capture of a group first).
\<close>

record rmatch =
  m_start :: nat
  m_rest :: string
  m_caps :: caps

fun search_from :: "flag list \<Rightarrow> string \<Rightarrow> rx \<Rightarrow> nat \<Rightarrow> string \<Rightarrow> rmatch option" where
  "search_from fl w r i s = (case ms fl w r s [] of
       p # _ \<Rightarrow> Some \<lparr>m_start = i, m_rest = fst p, m_caps = snd p\<rparr>
     | [] \<Rightarrow> (case s of [] \<Rightarrow> None | _ # t \<Rightarrow> search_from fl w r (Suc i) t))"

declare search_from.simps [simp del]

text \<open>\<open>re.search(r, w, flags)\<close>: the leftmost match.\<close>

definition re_search :: "rx \<Rightarrow> string \<Rightarrow> flag list \<Rightarrow> rmatch option" where
  "re_search r w fl = search_from fl w r 0 w"

text \<open>\<open>re.match(r, w, flags)\<close>: a match at the start of \<open>w\<close> only.\<close>

definition re_match :: "rx \<Rightarrow> string \<Rightarrow> flag list \<Rightarrow> rmatch option" where
  "re_match r w fl = (case ms fl w r w [] of
       p # _ \<Rightarrow> Some \<lparr>m_start = 0, m_rest = fst p, m_caps = snd p\<rparr>
     | [] \<Rightarrow> None)"

text \<open>\<open>m.group(n)\<close>, which is \<open>None\<close> for a group that took no part in the match.\<close>

definition mgroup :: "rmatch \<Rightarrow> nat \<Rightarrow> string option" where
  "mgroup m n = map_of (m_caps m) n"

text \<open>\<open>m.group(n)\<close> for a group that takes part in every match of its pattern.\<close>

definition grp :: "rmatch \<Rightarrow> nat \<Rightarrow> string" where
  "grp m n = (case mgroup m n of Some t \<Rightarrow> t | None \<Rightarrow> [])"

text \<open>
  The successive non-overlapping matches of \<open>r\<close> in \<open>s\<close>, left to right, each with the
  text skipped before it, and the text left after the last one. The patterns scanned
  for in the source match at least one character; an empty match ends the scan.
\<close>

function re_scan :: "flag list \<Rightarrow> string \<Rightarrow> rx \<Rightarrow> string \<Rightarrow> (string \<times> rmatch) list \<times> string" where
  "re_scan fl w r s = (case search_from fl w r 0 s of
       None \<Rightarrow> ([], s)
     | Some m \<Rightarrow>
         if length (m_rest m) < length s - m_start m
         then (let (segs, tl) = re_scan fl w r (m_rest m) in ((take (m_start m) s, m) # segs, tl))
         else ([], s))"
  by pat_completeness auto
termination
  by (relation "measure (\<lambda>(fl, w, r, s). length s)") auto

declare re_scan.simps [simp del]

text \<open>\<open>re.sub(r, repl, w, flags)\<close> for a replacement text without group references.\<close>

definition re_sub :: "rx \<Rightarrow> string \<Rightarrow> string \<Rightarrow> flag list \<Rightarrow> string" where
  "re_sub r repl w fl = (let (segs, tl) = re_scan fl w r w in
     concat (map (\<lambda>sg. fst sg @ repl) segs) @ tl)"

text \<open>\<open>re.split(r, w, flags)\<close> for a pattern without groups.\<close>

definition re_split :: "rx \<Rightarrow> string \<Rightarrow> flag list \<Rightarrow> string list" where
  "re_split r w fl = (let (segs, tl) = re_scan fl w r w in map fst segs @ [tl])"

text \<open>\<open>re.findall(r, w, flags)\<close> for a pattern with exactly one group.\<close>

definition re_findall :: "rx \<Rightarrow> string \<Rightarrow> flag list \<Rightarrow> string list" where
  "re_findall r w fl = (let (segs, tl) = re_scan fl w r w in map (\<lambda>sg. grp (snd sg) 1) segs)"

section \<open>Values, documents and canonical operations\<close>

text \<open>
  The values Python builds: \<open>None\<close>, \<open>bool\<close>, \<open>int\<close>, \<open>float\<close>, \<open>str\<close>, \<open>list\<close> and
  \<open>dict\<close> (a dictionary keeps its keys in insertion order, so it is an association
  list). A float carries the decimal value that was read; rounding to a double is not
  modelled.
\<close>

datatype json =
    JNull
  | JBool bool
  | JInt int
  | JFloat rat
  | JStr string
  | JArr "json list"
  | JObj "(string \<times> json) list"

type_synonym dict = "(string \<times> json) list"

text \<open>\<open>d[k] = v\<close> and \<open>d.update(e)\<close> on a dictionary.\<close>

definition dict_set :: "'k \<Rightarrow> 'v \<Rightarrow> ('k \<times> 'v) list \<Rightarrow> ('k \<times> 'v) list" where
  "dict_set k v d = AList.update k v d"

definition dict_update :: "('k \<times> 'v) list \<Rightarrow> ('k \<times> 'v) list \<Rightarrow> ('k \<times> 'v) list" where
  "dict_update d e = fold (\<lambda>kv acc. dict_set (fst kv) (snd kv) acc) e d"

text \<open>
  The dictionaries returned by the parsers of \<open>conversion.py\<close>, by their
  \<open>"operation"\<close> entry: collection, then document or filter, then (for \<open>find\<close>) the
  optional \<open>sort\<close> and \<open>projection\<close> entries or (for \<open>updateMany\<close>) the update.
\<close>

datatype operation =
    InsertOne string json
  | Find string json "(string \<times> int) list option" "(string \<times> int) list option"
  | UpdateMany string json json
  | DeleteMany string json

text \<open>
  Every failure of \<open>conversion.py\<close> is a \<open>ValueError\<close>; the constructors tell the
  places where it is raised apart. \<open>UnsupportedSyntax\<close> is raised by a statement parser
  whose cue matched but none of whose forms did, \<open>NotAString\<close> by a pattern condition on
  a value that is not a string, \<open>InvalidLiteralForInt\<close> by \<open>int()\<close>. In
  \<open>xquery_to_mongo.py\<close>, \<open>EvalRaised\<close> is any exception of \<open>eval\<close> and \<open>TypeError\<close> the
  item assignment on a value that is not a dictionary.
\<close>

datatype error =
    UnsupportedStatement
  | UnsupportedSyntax
  | MalformedLiteral
  | MalformedMarkup
  | MalformedPath
  | MissingCollection
  | UnsupportedCondition
  | NotAString
  | InvalidLiteralForInt
  | EvalRaised
  | TypeError

text \<open>An element of \<open>lxml.etree\<close>: tag, attributes, text before the first child, children.\<close>

datatype xml = Element string "(string \<times> string) list" "string option" "xml list"

text \<open>
  The library functions the source calls on statement text are parameters of the
  model: \<open>json.loads\<close> and \<open>etree.fromstring\<close> (\<open>None\<close> when they raise), and \<open>eval\<close>
  as \<open>xquery_to_mongo.py\<close> uses it on the text of a literal (a text that names none of
  the variables in scope, so that its value depends on the text alone).
\<close>

record library =
  json_loads :: "string \<Rightarrow> json option"
  etree_fromstring :: "string \<Rightarrow> xml option"
  py_eval :: "string \<Rightarrow> json option"

text \<open>The converter object: its only attribute is the binding table.\<close>

record converter =
  var_mappings :: "(string \<times> string) list"

definition init :: converter where
  "init = \<lparr>var_mappings = []\<rparr>"

section \<open>Numbers\<close>

definition digit_val :: "char \<Rightarrow> nat" where
  "digit_val ch = of_char ch - 48"

definition nat_of_digits :: "string \<Rightarrow> nat" where
  "nat_of_digits s = foldl (\<lambda>a ch. 10 * a + digit_val ch) 0 s"

text \<open>
  \<open>int(s)\<close> for a string that passed \<open>isdigit\<close>: a \<open>ValueError\<close> (here \<open>None\<close>) when a
  superscript digit occurs. The bound that recent interpreters put on the number of
  digits \<open>int()\<close> converts is not modelled.
\<close>

definition py_int :: "string \<Rightarrow> int option" where
  "py_int s = (if list_all isdecimal_chr s then Some (int (nat_of_digits s)) else None)"

text \<open>\<open>float(s)\<close> for digits, a decimal point, digits.\<close>

definition py_float :: "string \<Rightarrow> rat" where
  "py_float s = (let ip = takeWhile (\<lambda>ch. ch \<noteq> CHR ''.'') s;
                     fp = takeWhile isdecimal_chr (drop (Suc (length ip)) s)
                 in of_nat (nat_of_digits (ip @ fp)) / 10 ^ length fp)"





section \<open>The patterns of \<open>conversion.py\<close>\<close>

definition ws0 :: rx where
  "ws0 = Star (Cls [WS])"

definition ws1 :: rx where
  "ws1 = Plus (Cls [WS])"

definition quote :: rx where
  "quote = Cls [C (CHR 0x22), C (CHR 0x27)]"

definition nonquotes :: rx where
  "nonquotes = Plus (NCls [C (CHR 0x22), C (CHR 0x27)])"

text \<open>\<^verbatim>\<open>db\.collection\(["\'][^"\']+["\']\)\<close>, without and with the name as group 1.\<close>

definition rx_db_collection :: rx where
  "rx_db_collection = seqs [Str ''db.collection('', quote, nonquotes, quote, Lit (CHR '')'')]"

definition rx_db_collection_name :: rx where
  "rx_db_collection_name =
     seqs [Str ''db.collection('', quote, Grp 1 nonquotes, quote, Lit (CHR '')'')]"

text \<open>\<^verbatim>\<open>collection\(["\']([^"\']+)["\']\)\<close> with the name as group \<open>n\<close>.\<close>

definition rx_collection_name :: "nat \<Rightarrow> rx" where
  "rx_collection_name n = seqs [Str ''collection('', quote, Grp n nonquotes, quote, Lit (CHR '')'')]"

subsection \<open>The cues of \<open>parse_xquery\<close>\<close>

text \<open>\<^verbatim>\<open>insert\s+node\<close>\<close>

definition cue_insert_node :: rx where
  "cue_insert_node = seqs [Str ''insert'', ws1, Str ''node'']"

text \<open>\<^verbatim>\<open>db\.collection\(["\'][^"\']+["\']\)\.insert\<close>\<close>

definition cue_insert_call :: rx where
  "cue_insert_call = seqs [rx_db_collection, Str ''.insert'']"

text \<open>\<^verbatim>\<open>replace\s+node|update\s+value\<close>\<close>

definition cue_update_node :: rx where
  "cue_update_node =
     Alt (seqs [Str ''replace'', ws1, Str ''node'']) (seqs [Str ''update'', ws1, Str ''value''])"

text \<open>\<^verbatim>\<open>db\.collection\(["\'][^"\']+["\']\)\.update\<close>\<close>

definition cue_update_call :: rx where
  "cue_update_call = seqs [rx_db_collection, Str ''.update'']"

text \<open>\<^verbatim>\<open>delete\s+node\<close>\<close>

definition cue_delete_node :: rx where
  "cue_delete_node = seqs [Str ''delete'', ws1, Str ''node'']"

text \<open>\<^verbatim>\<open>db\.collection\(["\'][^"\']+["\']\)\.remove\<close>\<close>

definition cue_delete_call :: rx where
  "cue_delete_call = seqs [rx_db_collection, Str ''.remove'']"

text \<open>\<^verbatim>\<open>for\s+\$\w+\s+in\s+collection|db\.collection\(["\'][^"\']+["\']\)\.find\<close>\<close>

definition cue_read :: rx where
  "cue_read =
     Alt (seqs [Str ''for'', ws1, Lit (CHR ''$''), Plus (Cls [Wd]), ws1, Str ''in'', ws1,
                Str ''collection''])
         (seqs [rx_db_collection, Str ''.find''])"

subsection \<open>The patterns of the statement parsers\<close>

text \<open>\<^verbatim>\<open>db\.collection\(["\']([^"\']+)["\']\)\.insert\((.*)\)\<close>\<close>

definition rx_insert_call :: rx where
  "rx_insert_call =
     seqs [rx_db_collection_name, Str ''.insert('', Grp 2 (Star Dot), Lit (CHR '')'')]"

text \<open>\<^verbatim>\<open>,\s*}\<close> and \<^verbatim>\<open>,\s*]\<close>\<close>

definition rx_comma_brace :: rx where
  "rx_comma_brace = seqs [Lit (CHR '',''), ws0, Lit (CHR ''}'')]"

definition rx_comma_bracket :: rx where
  "rx_comma_bracket = seqs [Lit (CHR '',''), ws0, Lit (CHR '']'')]"

text \<open>\<^verbatim>\<open>insert\s+node\s+(.*?)\s+into\s+collection\(["\']([^"\']+)["\']\)\<close>\<close>

definition rx_insert_node :: rx where
  "rx_insert_node =
     seqs [Str ''insert'', ws1, Str ''node'', ws1, Grp 1 (LStar Dot), ws1, Str ''into'', ws1,
           rx_collection_name 2]"

text \<open>\<^verbatim>\<open><\?xml[^>]+\?>\<close>\<close>

definition rx_xml_decl :: rx where
  "rx_xml_decl = seqs [Str ''<?xml'', Plus (NCls [C (CHR ''>'')]), Str ''?>'']"

text \<open>\<^verbatim>\<open>db\.collection\(["\']([^"\']+)["\']\)\.update\((.*?),\s*(.*)\)\<close>\<close>

definition rx_update_call :: rx where
  "rx_update_call =
     seqs [rx_db_collection_name, Str ''.update('', Grp 2 (LStar Dot), Lit (CHR '',''), ws0,
           Grp 3 (Star Dot), Lit (CHR '')'')]"

text \<open>\<^verbatim>\<open>"\$set"|"\$inc"|"\$push"\<close>\<close>

definition rx_modifier :: rx where
  "rx_modifier =
     Alt (Str (CHR 0x22 # ''$set'' @ [CHR 0x22]))
    (Alt (Str (CHR 0x22 # ''$inc'' @ [CHR 0x22]))
         (Str (CHR 0x22 # ''$push'' @ [CHR 0x22])))"

text \<open>\<^verbatim>\<open>(?:where|in\s+collection)\<close>\<close>

definition rx_where_or_in :: rx where
  "rx_where_or_in = Alt (Str ''where'') (seqs [Str ''in'', ws1, Str ''collection''])"

text \<open>\<^verbatim>\<open>replace\s+node\s+(.*?)\s+with\s+(.*?)(?:where|in\s+collection)\<close>\<close>

definition rx_replace_node :: rx where
  "rx_replace_node =
     seqs [Str ''replace'', ws1, Str ''node'', ws1, Grp 1 (LStar Dot), ws1, Str ''with'', ws1,
           Grp 2 (LStar Dot), rx_where_or_in]"

text \<open>\<^verbatim>\<open>update\s+value\s+(.*?)\s+with\s+(.*?)(?:where|in\s+collection)\<close>\<close>

definition rx_update_value :: rx where
  "rx_update_value =
     seqs [Str ''update'', ws1, Str ''value'', ws1, Grp 1 (LStar Dot), ws1, Str ''with'', ws1,
           Grp 2 (LStar Dot), rx_where_or_in]"

text \<open>\<^verbatim>\<open>in\s+collection\(["\']([^"\']+)["\']\)\<close>\<close>

definition rx_in_collection :: rx where
  "rx_in_collection = seqs [Str ''in'', ws1, rx_collection_name 1]"

text \<open>\<^verbatim>\<open>where\s+(.*?)(?:in\s+collection|\Z)\<close>\<close>

definition rx_where_in :: rx where
  "rx_where_in =
     seqs [Str ''where'', ws1, Grp 1 (LStar Dot),
           Alt (seqs [Str ''in'', ws1, Str ''collection'']) EndZ]"

text \<open>\<^verbatim>\<open>\$(\w+)(?:/([^/]+))?\<close>\<close>

definition rx_target_path :: rx where
  "rx_target_path =
     seqs [Lit (CHR ''$''), Grp 1 (Plus (Cls [Wd])),
           Opt (seqs [Lit (CHR ''/''), Grp 2 (Plus (NCls [C (CHR ''/'')]))])]"

text \<open>\<^verbatim>\<open>^[0-9]+\.[0-9]+$\<close>\<close>

definition rx_float :: rx where
  "rx_float =
     seqs [Bol, Plus (Cls [Rng (CHR ''0'') (CHR ''9'')]), Lit (CHR ''.''),
           Plus (Cls [Rng (CHR ''0'') (CHR ''9'')]), Dollar]"

text \<open>\<^verbatim>\<open>db\.collection\(["\']([^"\']+)["\']\)\.remove\((.*)\)\<close>\<close>

definition rx_remove_call :: rx where
  "rx_remove_call =
     seqs [rx_db_collection_name, Str ''.remove('', Grp 2 (Star Dot), Lit (CHR '')'')]"

text \<open>\<^verbatim>\<open>delete\s+node\s+(.*?)(?:where|in\s+collection)\<close>\<close>

definition rx_delete_node :: rx where
  "rx_delete_node =
     seqs [Str ''delete'', ws1, Str ''node'', ws1, Grp 1 (LStar Dot), rx_where_or_in]"

text \<open>\<^verbatim>\<open>db\.collection\(["\']([^"\']+)["\']\)\.find\((.*?)\)\<close>\<close>

definition rx_find_call :: rx where
  "rx_find_call =
     seqs [rx_db_collection_name, Str ''.find('', Grp 2 (LStar Dot), Lit (CHR '')'')]"

text \<open>\<^verbatim>\<open>for\s+\$(\w+)\s+in\s+collection\(["\']([^"\']+)["\']\)(.*)\<close>\<close>

definition rx_for :: rx where
  "rx_for =
     seqs [Str ''for'', ws1, Lit (CHR ''$''), Grp 1 (Plus (Cls [Wd])), ws1, Str ''in'', ws1,
           rx_collection_name 2, Grp 3 (Star Dot)]"

text \<open>\<^verbatim>\<open>where\s+(.*?)(?:order\s+by|\Z)\<close>\<close>

definition rx_where_order :: rx where
  "rx_where_order =
     seqs [Str ''where'', ws1, Grp 1 (LStar Dot),
           Alt (seqs [Str ''order'', ws1, Str ''by'']) EndZ]"

text \<open>\<^verbatim>\<open>order\s+by\s+(.*?)(?:return|\Z)\<close>\<close>

definition rx_order_by :: rx where
  "rx_order_by =
     seqs [Str ''order'', ws1, Str ''by'', ws1, Grp 1 (LStar Dot), Alt (Str ''return'') EndZ]"

text \<open>\<^verbatim>\<open>return\s+(.*)\<close>\<close>

definition rx_return :: rx where
  "rx_return = seqs [Str ''return'', ws1, Grp 1 (Star Dot)]"

subsection \<open>The patterns of the condition shapes\<close>

text \<open>\<^verbatim>\<open>(\$\w+(?:/[^/\s]+)*)\<close>\<close>

definition rx_cond_path :: rx where
  "rx_cond_path =
     Grp 1 (seqs [Lit (CHR ''$''), Plus (Cls [Wd]),
                  Star (Seq (Lit (CHR ''/'')) (Plus (NCls [C (CHR ''/''), WS])))])"

text \<open>
  \<^verbatim>\<open>(\$\w+(?:/[^/\s]+)*)\s*OP\s*(.+)\<close> for a symbolic comparator \<open>OP\<close> and
  \<^verbatim>\<open>(\$\w+(?:/[^/\s]+)*)\s+KW\s+(.+)\<close> for a keyword comparator \<open>KW\<close>.
\<close>

definition rx_sym :: "string \<Rightarrow> rx" where
  "rx_sym opr = seqs [rx_cond_path, ws0, Str opr, ws0, Grp 2 (Plus Dot)]"

definition rx_kw :: "string \<Rightarrow> rx" where
  "rx_kw kw = seqs [rx_cond_path, ws1, Str kw, ws1, Grp 2 (Plus Dot)]"

text \<open>\<^verbatim>\<open>NAME\s*\(\s*(\$\w+(?:/[^/\s,]+)*)\s*,\s*(.+?)\s*\)\<close> for a function \<open>NAME\<close>.\<close>

definition rx_func :: "string \<Rightarrow> rx" where
  "rx_func name =
     seqs [Str name, ws0, Lit (CHR ''(''), ws0,
           Grp 1 (seqs [Lit (CHR ''$''), Plus (Cls [Wd]),
                        Star (Seq (Lit (CHR ''/'')) (Plus (NCls [C (CHR ''/''), WS, C (CHR '','')])))]),
           ws0, Lit (CHR '',''), ws0, Grp 2 (LPlus Dot), ws0, Lit (CHR '')'')]"

text \<open>\<^verbatim>\<open>exists\s*\(\s*(\$\w+(?:/[^/\s]+)*)\s*\)\<close>\<close>

definition rx_exists :: rx where
  "rx_exists =
     seqs [Str ''exists'', ws0, Lit (CHR ''(''), ws0, rx_cond_path, ws0, Lit (CHR '')'')]"

text \<open>\<^verbatim>\<open>not\s*\(\s*exists\s*\(\s*(\$\w+(?:/[^/\s]+)*)\s*\)\s*\)\<close>\<close>

definition rx_not_exists :: rx where
  "rx_not_exists =
     seqs [Str ''not'', ws0, Lit (CHR ''(''), ws0, Str ''exists'', ws0, Lit (CHR ''(''), ws0,
           rx_cond_path, ws0, Lit (CHR '')''), ws0, Lit (CHR '')'')]"

subsection \<open>The patterns of the ordering and result-shape clauses\<close>

text \<open>\<^verbatim>\<open>,\s*\<close>\<close>

definition rx_comma :: rx where
  "rx_comma = seqs [Lit (CHR '',''), ws0]"

text \<open>\<^verbatim>\<open>descending$\<close>, \<^verbatim>\<open>\s+descending$\<close> and \<^verbatim>\<open>\s+ascending$\<close>\<close>

definition rx_descending :: rx where
  "rx_descending = seqs [Str ''descending'', Dollar]"

definition rx_ws_descending :: rx where
  "rx_ws_descending = seqs [ws1, Str ''descending'', Dollar]"

definition rx_ws_ascending :: rx where
  "rx_ws_ascending = seqs [ws1, Str ''ascending'', Dollar]"

text \<open>
  \<^verbatim>\<open>r'\$' + context_var + r'/([^/\s,]+)'\<close>. The context variable comes from group 1
  of the iteration clause, so it consists of word characters, which stand for
  themselves in a pattern.
\<close>

definition field_pattern :: "string \<Rightarrow> rx" where
  "field_pattern context_var =
     seqs [Lit (CHR ''$''), Str context_var, Lit (CHR ''/''),
           Grp 1 (Plus (NCls [C (CHR ''/''), WS, C (CHR '','')]))]"

section \<open>Path Resolver and Value Resolver\<close>

text \<open>\<open>_parse_path\<close>. It has no failure branch.\<close>

definition parse_path :: "string \<Rightarrow> string \<Rightarrow> string" where
  "parse_path path context_var =
     (let prefix = CHR ''$'' # context_var @ ''/'' in
      if startswith path prefix then replace_chr (CHR ''/'') (CHR ''.'') (drop (length prefix) path)
      else if path = CHR ''$'' # context_var then ''_id''
      else replace_chr (CHR ''/'') (CHR ''.'') path)"

text \<open>The test for a string literal: double quotes at both ends, or single quotes.\<close>

definition quoted :: "string \<Rightarrow> bool" where
  "quoted value_str =
     ((startswith value_str [CHR 0x22] \<and> endswith value_str [CHR 0x22]) \<or>
      (startswith value_str [CHR 0x27] \<and> endswith value_str [CHR 0x27]))"

text \<open>\<open>_parse_value\<close>.\<close>

definition parse_value :: "string \<Rightarrow> error + json" where
  "parse_value value_str0 =
     (let value_str = strip value_str0 in
      if quoted value_str
      then Inr (JStr (slice_1_m1 value_str))
      else if isdigit value_str
      then (case py_int value_str of None \<Rightarrow> Inl InvalidLiteralForInt | Some n \<Rightarrow> Inr (JInt n))
      else if re_match rx_float value_str [] \<noteq> None then Inr (JFloat (py_float value_str))
      else if lower value_str = ''true'' then Inr (JBool True)
      else if lower value_str = ''false'' then Inr (JBool False)
      else if lower value_str = ''null'' \<or> lower value_str = ''none'' then Inr JNull
      else if CHR ''('' \<in> set value_str then Inr (JStr value_str)
      else Inr (JStr value_str))"

section \<open>Predicate Engine\<close>

text \<open>\<open>a or b\<close> on two match results.\<close>

definition por :: "'a option \<Rightarrow> 'a option \<Rightarrow> 'a option" where
  "por a b = (case a of Some x \<Rightarrow> Some x | None \<Rightarrow> b)"

text \<open>\<open>re.escape\<close>: a backslash before each of the characters it treats as special.\<close>

definition re_escape :: "string \<Rightarrow> string" where
  "re_escape s = concat (map (\<lambda>ch.
     if (of_char ch :: nat) \<in> set [9, 10, 11, 12, 13, 32, 35, 36, 38, 40, 41, 42, 43, 45, 46, 63,
                                   91, 92, 93, 94, 123, 124, 125, 126]
     then [CHR 0x5C, ch] else [ch]) s)"

text \<open>
  The body shared by the six comparison shapes: path from group 1, value from group 2,
  one entry \<open>{field: wrap(parsed_value)}\<close>.
\<close>

definition compare_entry :: "rmatch \<Rightarrow> string \<Rightarrow> (json \<Rightarrow> json) \<Rightarrow> error + dict" where
  "compare_entry m context_var wrap =
     (let path = strip (grp m 1);
          value = strip (grp m 2);
          field = parse_path path context_var
      in case parse_value value of
           Inl e \<Rightarrow> Inl e
         | Inr parsed_value \<Rightarrow> Inr [(field, wrap parsed_value)])"

text \<open>
  The body shared by \<open>contains\<close>, \<open>starts-with\<close> and \<open>ends-with\<close>: the value must
  resolve to a string, from which \<open>mk\<close> builds the regular expression.
\<close>

definition pattern_entry :: "rmatch \<Rightarrow> string \<Rightarrow> (string \<Rightarrow> string) \<Rightarrow> error + dict" where
  "pattern_entry m context_var mk =
     (let path = strip (grp m 1);
          value = strip (grp m 2);
          field = parse_path path context_var
      in case parse_value value of
           Inl e \<Rightarrow> Inl e
         | Inr (JStr t) \<Rightarrow> Inr [(field, JObj [(''$regex'', JStr (mk t)), (''$options'', JStr ''i'')])]
         | Inr _ \<Rightarrow> Inl NotAString)"

definition exists_entry :: "rmatch \<Rightarrow> string \<Rightarrow> bool \<Rightarrow> error + dict" where
  "exists_entry m context_var b =
     (let path = strip (grp m 1);
          field = parse_path path context_var
      in Inr [(field, JObj [(''$exists'', JBool b)])])"

text \<open>\<open>_parse_single_condition\<close>: the shapes are tried in the order of the source.\<close>

definition parse_single_condition :: "string \<Rightarrow> string \<Rightarrow> error + dict" where
  "parse_single_condition condition0 context_var =
     (let condition = strip_chars ''()'' condition0 in
      case por (re_search (rx_sym ''='') condition []) (re_search (rx_kw ''eq'') condition []) of
        Some m \<Rightarrow> compare_entry m context_var (\<lambda>v. v)
      | None \<Rightarrow>
     (case por (re_search (rx_sym ''!='') condition []) (re_search (rx_kw ''ne'') condition []) of
        Some m \<Rightarrow> compare_entry m context_var (\<lambda>v. JObj [(''$ne'', v)])
      | None \<Rightarrow>
     (case por (re_search (rx_sym ''>'') condition []) (re_search (rx_kw ''gt'') condition []) of
        Some m \<Rightarrow> compare_entry m context_var (\<lambda>v. JObj [(''$gt'', v)])
      | None \<Rightarrow>
     (case por (re_search (rx_sym ''>='') condition []) (re_search (rx_kw ''ge'') condition []) of
        Some m \<Rightarrow> compare_entry m context_var (\<lambda>v. JObj [(''$gte'', v)])
      | None \<Rightarrow>
     (case por (re_search (rx_sym ''<'') condition []) (re_search (rx_kw ''lt'') condition []) of
        Some m \<Rightarrow> compare_entry m context_var (\<lambda>v. JObj [(''$lt'', v)])
      | None \<Rightarrow>
     (case por (re_search (rx_sym ''<='') condition []) (re_search (rx_kw ''le'') condition []) of
        Some m \<Rightarrow> compare_entry m context_var (\<lambda>v. JObj [(''$lte'', v)])
      | None \<Rightarrow>
     (case re_search (rx_func ''contains'') condition [] of
        Some m \<Rightarrow> pattern_entry m context_var (\<lambda>t. t)
      | None \<Rightarrow>
     (case re_search (rx_func ''starts-with'') condition [] of
        Some m \<Rightarrow> pattern_entry m context_var (\<lambda>t. CHR ''^'' # re_escape t)
      | None \<Rightarrow>
     (case re_search (rx_func ''ends-with'') condition [] of
        Some m \<Rightarrow> pattern_entry m context_var (\<lambda>t. re_escape t @ ''$'')
      | None \<Rightarrow>
     (case re_search rx_exists condition [] of
        Some m \<Rightarrow> exists_entry m context_var True
      | None \<Rightarrow>
     (case re_search rx_not_exists condition [] of
        Some m \<Rightarrow> exists_entry m context_var False
      | None \<Rightarrow> Inl UnsupportedCondition)))))))))))"

text \<open>
  Modelled from the spec: the method \<open>_parse_where_clause\<close>, which the update, delete
  and read parsers call and whose body is not in the source. By section 4.3 of the
  specification it takes a condition clause and a context-variable name, splits the
  clause on the explicit conjunction markers into fragments, parses each fragment with
  \<open>_parse_single_condition\<close>, and merges the entries into one filter, a later fragment
  overwriting an earlier one on the same field path. The marker is taken to be the
  keyword \<open>and\<close> between white space, in any case.
\<close>

definition rx_and :: rx where
  "rx_and = seqs [ws1, Str ''and'', ws1]"

definition conj_fragments :: "string \<Rightarrow> string list" where
  "conj_fragments where_clause = re_split rx_and where_clause [IGNORECASE]"

fun merge_conditions :: "string \<Rightarrow> string list \<Rightarrow> dict \<Rightarrow> error + dict" where
  "merge_conditions context_var [] query = Inr query"
| "merge_conditions context_var (fragment # fragments) query =
     (case parse_single_condition fragment context_var of
        Inl e \<Rightarrow> Inl e
      | Inr entry \<Rightarrow> merge_conditions context_var fragments (dict_update query entry))"

definition parse_where_clause :: "string \<Rightarrow> string \<Rightarrow> error + dict" where
  "parse_where_clause where_clause context_var =
     merge_conditions context_var (conj_fragments where_clause) []"

text \<open>
  \<open>where_clause = where_match.group(1).strip() if where_match else None\<close> for the
  where pattern \<open>r\<close>, and the filter built from it:
  \<open>query = {}\<close>, then \<open>if where_clause: query = self._parse_where_clause(...)\<close>.
\<close>

definition where_clause_of :: "rx \<Rightarrow> string \<Rightarrow> string option" where
  "where_clause_of r text = (case re_search r text [IGNORECASE, DOTALL] of
       Some m \<Rightarrow> Some (strip (grp m 1))
     | None \<Rightarrow> None)"

definition build_query :: "string option \<Rightarrow> string \<Rightarrow> error + dict" where
  "build_query where_clause var_name = (case where_clause of
       None \<Rightarrow> Inr []
     | Some wc \<Rightarrow> if wc = [] then Inr [] else parse_where_clause wc var_name)"

section \<open>Ordering and result-shape clauses\<close>

text \<open>One part of \<open>_parse_order_by\<close>: the field and its direction.\<close>

definition order_part :: "string \<Rightarrow> string \<Rightarrow> string \<times> int" where
  "order_part part context_var =
     (if re_search rx_descending part [IGNORECASE] \<noteq> None
      then (parse_path (strip (re_sub rx_ws_descending [] part [IGNORECASE])) context_var, - 1)
      else (parse_path (strip (re_sub rx_ws_ascending [] part [IGNORECASE])) context_var, 1))"

definition parse_order_by :: "string \<Rightarrow> string \<Rightarrow> (string \<times> int) list" where
  "parse_order_by order_by_clause context_var =
     foldl (\<lambda>sort_spec part.
              dict_set (fst (order_part part context_var)) (snd (order_part part context_var)) sort_spec)
           [] (re_split rx_comma order_by_clause [])"

text \<open>\<open>_parse_return_clause\<close>.\<close>

definition parse_return_clause :: "string \<Rightarrow> string \<Rightarrow> (string \<times> int) list" where
  "parse_return_clause return_clause context_var =
     (let fields = re_findall (field_pattern context_var) return_clause [];
          projection = foldl (\<lambda>pr field. dict_set field 1 pr) [] fields
      in if fields \<noteq> [] \<and> map_of projection ''_id'' = None
         then dict_set ''_id'' 0 projection
         else projection)"

section \<open>Markup-to-Document Converter\<close>

definition xml_tag :: "xml \<Rightarrow> string" where
  "xml_tag e = (case e of Element tag attrib txt children \<Rightarrow> tag)"

text \<open>One pass of the loop over the children: the tag is new, holds a list, or holds one value.\<close>

definition add_child :: "dict \<Rightarrow> string \<Rightarrow> json \<Rightarrow> dict" where
  "add_child result tag child_dict = (case map_of result tag of
       None \<Rightarrow> dict_set tag child_dict result
     | Some (JArr xs) \<Rightarrow> dict_set tag (JArr (xs @ [child_dict])) result
     | Some v \<Rightarrow> dict_set tag (JArr [v, child_dict]) result)"

text \<open>\<open>_xml_to_json\<close>.\<close>

fun xml_to_json :: "xml \<Rightarrow> json" where
  "xml_to_json (Element tag attrib txt children) =
     (let result0 = foldl (\<lambda>r kv. dict_set (CHR ''@'' # fst kv) (JStr (snd kv)) r) [] attrib;
          result = foldl (\<lambda>r tj. add_child r (fst tj) (snd tj)) result0
                     (map (\<lambda>child. (xml_tag child, xml_to_json child)) children)
      in case txt of
           None \<Rightarrow> JObj result
         | Some t \<Rightarrow>
             if strip t = [] then JObj result
             else if result \<noteq> [] then JObj (dict_set ''#text'' (JStr (strip t)) result)
             else JStr (strip t))"

section \<open>Statement parsers\<close>

text \<open>
  \<open>_parse_insert\<close>. The statement parsers other than \<open>_parse_read\<close> never touch the
  binding table, so they take no converter.
\<close>

definition parse_insert :: "library \<Rightarrow> string \<Rightarrow> error + operation" where
  "parse_insert lib xquery_string =
     (case re_search rx_insert_call xquery_string [IGNORECASE, DOTALL] of
        Some m \<Rightarrow>
          (let collection_name = grp m 1;
               doc_json = strip (grp m 2);
               doc_json1 = re_sub rx_comma_brace ''}'' doc_json [];
               doc_json2 = re_sub rx_comma_bracket '']'' doc_json1 []
           in case json_loads lib doc_json2 of
                None \<Rightarrow> Inl MalformedLiteral
              | Some doc \<Rightarrow> Inr (InsertOne collection_name doc))
      | None \<Rightarrow>
     (case re_search rx_insert_node xquery_string [IGNORECASE, DOTALL] of
        Some m \<Rightarrow>
          (let xml_content = strip (grp m 1);
               collection_name = grp m 2
           in if startswith xml_content ''{'' \<and> endswith xml_content ''}''
              then (case json_loads lib xml_content of
                      None \<Rightarrow> Inl MalformedLiteral
                    | Some doc \<Rightarrow> Inr (InsertOne collection_name doc))
              else (case etree_fromstring lib (re_sub rx_xml_decl [] xml_content []) of
                      None \<Rightarrow> Inl MalformedMarkup
                    | Some xml_tree \<Rightarrow> Inr (InsertOne collection_name (xml_to_json xml_tree))))
      | None \<Rightarrow> Inl UnsupportedSyntax))"

text \<open>The shorthand form of \<open>_parse_update\<close>, from its match.\<close>

definition update_call :: "library \<Rightarrow> rmatch \<Rightarrow> error + operation" where
  "update_call lib m =
     (let collection_name = grp m 1;
          query_json = re_sub rx_comma_brace ''}'' (strip (grp m 2)) [];
          update_json = re_sub rx_comma_brace ''}'' (strip (grp m 3)) []
      in case json_loads lib query_json of
           None \<Rightarrow> Inl MalformedLiteral
         | Some query \<Rightarrow>
             if startswith (strip update_json) ''{'' \<and> re_search rx_modifier update_json [] \<noteq> None
             then (case json_loads lib update_json of
                     None \<Rightarrow> Inl MalformedLiteral
                   | Some update \<Rightarrow> Inr (UpdateMany collection_name query update))
             else (case json_loads lib update_json of
                     None \<Rightarrow> Inl MalformedLiteral
                   | Some u \<Rightarrow> Inr (UpdateMany collection_name query (JObj [(''$set'', u)]))))"

text \<open>
  \<open>field_path = path_parts.group(2).replace('/', '.') if path_parts.group(2) else None\<close>
\<close>

definition field_path_of :: "rmatch \<Rightarrow> string option" where
  "field_path_of path_parts = (case mgroup path_parts 2 of
       None \<Rightarrow> None
     | Some g \<Rightarrow> if g = [] then None else Some (replace_chr (CHR ''/'') (CHR ''.'') g))"

text \<open>\<open>{"$set": {field_path: v}} if field_path else {"$set": v}\<close>\<close>

definition set_update :: "string option \<Rightarrow> json \<Rightarrow> json" where
  "set_update field_path v = (case field_path of
       Some fp \<Rightarrow> if fp = [] then JObj [(''$set'', v)] else JObj [(''$set'', JObj [(fp, v)])]
     | None \<Rightarrow> JObj [(''$set'', v)])"

text \<open>The replacement of the replace-node form: a structured literal when it parses, else text.\<close>

definition replacement_value :: "library \<Rightarrow> string \<Rightarrow> json" where
  "replacement_value lib replacement =
     (if startswith replacement ''{'' \<and> endswith replacement ''}''
      then (case json_loads lib replacement of Some v \<Rightarrow> v | None \<Rightarrow> JStr replacement)
      else JStr replacement)"

text \<open>The new value of the update-value form.\<close>

definition scalar_value :: "string \<Rightarrow> error + json" where
  "scalar_value new_value =
     (if startswith new_value [CHR 0x22] \<and> endswith new_value [CHR 0x22]
      then Inr (JStr (slice_1_m1 new_value))
      else if isdigit new_value
      then (case py_int new_value of None \<Rightarrow> Inl InvalidLiteralForInt | Some n \<Rightarrow> Inr (JInt n))
      else if re_match rx_float new_value [] \<noteq> None then Inr (JFloat (py_float new_value))
      else Inr (JStr new_value))"

text \<open>
  The two hierarchical forms of \<open>_parse_update\<close>, from the match of their pattern; they
  differ in how the replacement is read (\<open>rd\<close>).
\<close>

definition update_node :: "string \<Rightarrow> rmatch \<Rightarrow> (string \<Rightarrow> error + json) \<Rightarrow> error + operation" where
  "update_node xquery_string m rd =
     (let target_path = strip (grp m 1);
          replacement = strip (grp m 2)
      in case re_search rx_in_collection xquery_string [] of
           None \<Rightarrow> Inl MissingCollection
         | Some collection_match \<Rightarrow>
        (let collection_name = grp collection_match 1;
             where_clause = where_clause_of rx_where_in xquery_string
         in case re_search rx_target_path target_path [] of
              None \<Rightarrow> Inl MalformedPath
            | Some path_parts \<Rightarrow>
           (let var_name = grp path_parts 1;
                field_path = field_path_of path_parts
            in case build_query where_clause var_name of
                 Inl e \<Rightarrow> Inl e
               | Inr query \<Rightarrow>
              (case rd replacement of
                 Inl e \<Rightarrow> Inl e
               | Inr update_value \<Rightarrow>
                   Inr (UpdateMany collection_name (JObj query) (set_update field_path update_value))))))"

text \<open>\<open>_parse_update\<close>.\<close>

definition parse_update :: "library \<Rightarrow> string \<Rightarrow> error + operation" where
  "parse_update lib xquery_string =
     (case re_search rx_update_call xquery_string [IGNORECASE, DOTALL] of
        Some m \<Rightarrow> update_call lib m
      | None \<Rightarrow>
     (case re_search rx_replace_node xquery_string [IGNORECASE, DOTALL] of
        Some m \<Rightarrow> update_node xquery_string m (\<lambda>t. Inr (replacement_value lib t))
      | None \<Rightarrow>
     (case re_search rx_update_value xquery_string [IGNORECASE, DOTALL] of
        Some m \<Rightarrow> update_node xquery_string m scalar_value
      | None \<Rightarrow> Inl UnsupportedSyntax)))"

text \<open>\<open>_parse_delete\<close>.\<close>

definition parse_delete :: "library \<Rightarrow> string \<Rightarrow> error + operation" where
  "parse_delete lib xquery_string =
     (case re_search rx_remove_call xquery_string [IGNORECASE, DOTALL] of
        Some m \<Rightarrow>
          (let collection_name = grp m 1;
               query_json = re_sub rx_comma_brace ''}'' (strip (grp m 2)) []
           in case json_loads lib query_json of
                None \<Rightarrow> Inl MalformedLiteral
              | Some query \<Rightarrow> Inr (DeleteMany collection_name query))
      | None \<Rightarrow>
     (case re_search rx_delete_node xquery_string [IGNORECASE, DOTALL] of
        Some m \<Rightarrow>
          (let target_path = strip (grp m 1)
           in case re_search rx_in_collection xquery_string [] of
                None \<Rightarrow> Inl MissingCollection
              | Some collection_match \<Rightarrow>
             (let collection_name = grp collection_match 1;
                  where_clause = where_clause_of rx_where_in xquery_string
              in case re_search rx_target_path target_path [] of
                   None \<Rightarrow> Inl MalformedPath
                 | Some path_parts \<Rightarrow>
                (case build_query where_clause (grp path_parts 1) of
                   Inl e \<Rightarrow> Inl e
                 | Inr query \<Rightarrow> Inr (DeleteMany collection_name (JObj query)))))
      | None \<Rightarrow> Inl UnsupportedSyntax))"

text \<open>
  The shorthand form of \<open>_parse_read\<close>, from its match. In the source the assignment
  of the cleaned text is broken over several lines (\<open>query_json =\<close>, blank lines, then
  \<open>query_json = re.sub(...)\<close>); it is read as the one assignment
  \<open>query_json = re.sub(r',\s*}', '}', query_json)\<close> that the delete parser has.
\<close>

definition find_call :: "library \<Rightarrow> rmatch \<Rightarrow> error + operation" where
  "find_call lib m =
     (let collection_name = grp m 1;
          query_json = re_sub rx_comma_brace ''}'' (strip (grp m 2)) []
      in if query_json = [] then Inr (Find collection_name (JObj []) None None)
         else (case json_loads lib query_json of
                 None \<Rightarrow> Inl MalformedLiteral
               | Some query \<Rightarrow> Inr (Find collection_name query None None)))"

text \<open>
  The ordering and result-shape clauses of the hierarchical form; an empty dictionary
  is left out of the result (\<open>if sort:\<close>, \<open>if projection:\<close>).
\<close>

definition sort_of :: "string \<Rightarrow> string \<Rightarrow> (string \<times> int) list option" where
  "sort_of rest_of_query var_name =
     (case re_search rx_order_by rest_of_query [IGNORECASE, DOTALL] of
        None \<Rightarrow> None
      | Some order_by_match \<Rightarrow>
          (let sort = parse_order_by (strip (grp order_by_match 1)) var_name
           in if sort = [] then None else Some sort))"

definition projection_of :: "string \<Rightarrow> string \<Rightarrow> (string \<times> int) list option" where
  "projection_of rest_of_query var_name =
     (case re_search rx_return rest_of_query [IGNORECASE, DOTALL] of
        None \<Rightarrow> None
      | Some return_match \<Rightarrow>
          (let projection = parse_return_clause (strip (grp return_match 1)) var_name
           in if projection = [] then None else Some projection))"

text \<open>
  \<open>_parse_read\<close>. The hierarchical form stores the binding of the iteration
  variable in the converter before it reads the clauses, so the binding is stored
  also when a clause then fails.
\<close>

definition parse_read :: "library \<Rightarrow> converter \<Rightarrow> string \<Rightarrow> (error + operation) \<times> converter" where
  "parse_read lib self xquery_string =
     (case re_search rx_find_call xquery_string [IGNORECASE, DOTALL] of
        Some m \<Rightarrow> (find_call lib m, self)
      | None \<Rightarrow>
     (case re_search rx_for xquery_string [IGNORECASE, DOTALL] of
        Some m \<Rightarrow>
          (let var_name = grp m 1;
               collection_name = grp m 2;
               rest_of_query = strip (grp m 3);
               self' = self\<lparr>var_mappings := dict_set var_name collection_name (var_mappings self)\<rparr>;
               where_clause = where_clause_of rx_where_order rest_of_query
           in case build_query where_clause var_name of
                Inl e \<Rightarrow> (Inl e, self')
              | Inr query \<Rightarrow>
                  (Inr (Find collection_name (JObj query)
                          (sort_of rest_of_query var_name)
                          (projection_of rest_of_query var_name)), self'))
      | None \<Rightarrow> (Inl UnsupportedSyntax, self)))"

section \<open>Dialect Router\<close>

definition cue :: "rx \<Rightarrow> string \<Rightarrow> bool" where
  "cue r xquery_string = (re_search r xquery_string [IGNORECASE] \<noteq> None)"

definition insert_cue :: "string \<Rightarrow> bool" where
  "insert_cue xquery_string = (cue cue_insert_node xquery_string \<or> cue cue_insert_call xquery_string)"

definition update_cue :: "string \<Rightarrow> bool" where
  "update_cue xquery_string = (cue cue_update_node xquery_string \<or> cue cue_update_call xquery_string)"

definition delete_cue :: "string \<Rightarrow> bool" where
  "delete_cue xquery_string = (cue cue_delete_node xquery_string \<or> cue cue_delete_call xquery_string)"

definition read_cue :: "string \<Rightarrow> bool" where
  "read_cue xquery_string = cue cue_read xquery_string"

text \<open>\<open>parse_xquery\<close>.\<close>

definition parse_xquery :: "library \<Rightarrow> converter \<Rightarrow> string \<Rightarrow> (error + operation) \<times> converter" where
  "parse_xquery lib self xquery_string0 =
     (let xquery_string = strip xquery_string0 in
      if insert_cue xquery_string then (parse_insert lib xquery_string, self)
      else if update_cue xquery_string then (parse_update lib xquery_string, self)
      else if delete_cue xquery_string then (parse_delete lib xquery_string, self)
      else if read_cue xquery_string then parse_read lib self xquery_string
      else (Inl UnsupportedStatement, self))"

text \<open>
  A converter used for one statement after another, as the batch driver of \<open>main\<close>
  uses it: the results are collected and the converter is handed on.
\<close>

fun parse_all :: "library \<Rightarrow> converter \<Rightarrow> string list \<Rightarrow> (error + operation) list \<times> converter" where
  "parse_all lib self [] = ([], self)"
| "parse_all lib self (line # lines) =
     (let (r, self') = parse_xquery lib self line;
          (rs, self'') = parse_all lib self' lines
      in (r # rs, self''))"

section \<open>The converter of \<open>xquery_to_mongo.py\<close>\<close>

text \<open>\<^verbatim>\<open>xdmp:document-insert\("(.+?)", (.+)\)\<close>\<close>

definition rx_xdmp_insert :: rx where
  "rx_xdmp_insert =
     seqs [Str ''xdmp:document-insert('', Lit (CHR 0x22), Grp 1 (LPlus Dot), Lit (CHR 0x22),
           Str '', '', Grp 2 (Plus Dot), Lit (CHR '')'')]"

text \<open>\<^verbatim>\<open>xdmp:document-get\("(.+?)"\)\<close>\<close>

definition rx_xdmp_get :: rx where
  "rx_xdmp_get =
     seqs [Str ''xdmp:document-get('', Lit (CHR 0x22), Grp 1 (LPlus Dot), Lit (CHR 0x22),
           Lit (CHR '')'')]"

text \<open>\<^verbatim>\<open>xdmp:node-replace\(doc\("(.+?)"\)//(.+?), (.+)\)\<close>\<close>

definition rx_xdmp_replace :: rx where
  "rx_xdmp_replace =
     seqs [Str ''xdmp:node-replace(doc('', Lit (CHR 0x22), Grp 1 (LPlus Dot), Lit (CHR 0x22),
           Str '')//'', Grp 2 (LPlus Dot), Str '', '', Grp 3 (Plus Dot), Lit (CHR '')'')]"

text \<open>\<^verbatim>\<open>xdmp:document-delete\("(.+?)"\)\<close>\<close>

definition rx_xdmp_delete :: rx where
  "rx_xdmp_delete =
     seqs [Str ''xdmp:document-delete('', Lit (CHR 0x22), Grp 1 (LPlus Dot), Lit (CHR 0x22),
           Lit (CHR '')'')]"

text \<open>
  The dictionaries \<open>convert_xquery_to_mongo\<close> returns, by their \<open>"operation"\<close> entry;
  \<open>Unsupported\<close> is \<open>{"error": "Unsupported XQuery statement"}\<close>.
\<close>

datatype mongo_query =
    QInsert json
  | QFind json
  | QUpdate json json
  | QDelete json
  | Unsupported

text \<open>\<open>{"_id": doc_id}\<close>\<close>

definition id_query :: "string \<Rightarrow> json" where
  "id_query doc_id = JObj [(''_id'', JStr doc_id)]"

text \<open>\<open>convert_xquery_to_mongo\<close>.\<close>

definition convert_xquery_to_mongo :: "library \<Rightarrow> string \<Rightarrow> error + mongo_query" where
  "convert_xquery_to_mongo lib xquery =
     (if contains_str ''xdmp:document-insert'' xquery
      then (case re_search rx_xdmp_insert xquery [] of
              None \<Rightarrow> Inr Unsupported
            | Some m \<Rightarrow>
                (case py_eval lib (grp m 2) of
                   None \<Rightarrow> Inl EvalRaised
                 | Some (JObj document) \<Rightarrow>
                     Inr (QInsert (JObj (dict_set ''_id'' (JStr (grp m 1)) document)))
                 | Some _ \<Rightarrow> Inl TypeError))
      else if contains_str ''xdmp:document-get'' xquery
      then (case re_search rx_xdmp_get xquery [] of
              None \<Rightarrow> Inr Unsupported
            | Some m \<Rightarrow> Inr (QFind (id_query (grp m 1))))
      else if contains_str ''xdmp:node-replace'' xquery
      then (case re_search rx_xdmp_replace xquery [] of
              None \<Rightarrow> Inr Unsupported
            | Some m \<Rightarrow>
                (case py_eval lib (grp m 3) of
                   None \<Rightarrow> Inl EvalRaised
                 | Some new_value \<Rightarrow>
                     Inr (QUpdate (id_query (grp m 1))
                            (JObj [(''$set'', JObj [(grp m 2, new_value)])]))))
      else if contains_str ''xdmp:document-delete'' xquery
      then (case re_search rx_xdmp_delete xquery [] of
              None \<Rightarrow> Inr Unsupported
            | Some m \<Rightarrow> Inr (QDelete (id_query (grp m 1))))
      else Inr Unsupported)"

section \<open>Notions of the specification\<close>

text \<open>
  Splitting a path at its slashes and joining the segments with dots, as the
  specification describes the Path Resolver.
\<close>

fun split_on :: "char \<Rightarrow> string \<Rightarrow> string list" where
  "split_on sep [] = [[]]"
| "split_on sep (x # xs) =
     (if x = sep then [] # split_on sep xs
      else (case split_on sep xs of [] \<Rightarrow> [[x]] | y # ys \<Rightarrow> (x # y) # ys))"

fun join :: "string \<Rightarrow> string list \<Rightarrow> string" where
  "join sep [] = []"
| "join sep [x] = x"
| "join sep (x # y # ys) = x @ sep @ join sep (y # ys)"











text \<open>The filter of a canonical operation; an insert has none.\<close>

definition op_filter :: "operation \<Rightarrow> json option" where
  "op_filter opn = (case opn of
       InsertOne c d \<Rightarrow> None
     | Find c f srt prj \<Rightarrow> Some f
     | UpdateMany c f u \<Rightarrow> Some f
     | DeleteMany c f \<Rightarrow> Some f)"

text \<open>The keys of a dictionary value.\<close>

definition json_keys :: "json \<Rightarrow> string list" where
  "json_keys v = (case v of JObj d \<Rightarrow> map fst d | _ \<Rightarrow> [])"

text \<open>The modifier keys that \<open>_parse_update\<close> looks for.\<close>

definition has_modifier_key :: "json \<Rightarrow> bool" where
  "has_modifier_key v = list_ex (\<lambda>k. k = ''$set'' \<or> k = ''$inc'' \<or> k = ''$push'') (json_keys v)"





text \<open>
  The condition clause of a statement as the parser that the router picks finds it:
  the filter literal of a shorthand form, the where clause of a hierarchical form;
  \<open>None\<close> when it is absent or empty.
\<close>

definition nonempty :: "string \<Rightarrow> string option" where
  "nonempty t = (if t = [] then None else Some t)"

definition hierarchical_where :: "rx \<Rightarrow> string \<Rightarrow> string option" where
  "hierarchical_where r t = (case where_clause_of r t of None \<Rightarrow> None | Some wc \<Rightarrow> nonempty wc)"

definition update_condition :: "string \<Rightarrow> string option" where
  "update_condition xquery_string =
     (case re_search rx_update_call xquery_string [IGNORECASE, DOTALL] of
        Some m \<Rightarrow> nonempty (strip (grp m 2))
      | None \<Rightarrow> hierarchical_where rx_where_in xquery_string)"

definition delete_condition :: "string \<Rightarrow> string option" where
  "delete_condition xquery_string =
     (case re_search rx_remove_call xquery_string [IGNORECASE, DOTALL] of
        Some m \<Rightarrow> nonempty (strip (grp m 2))
      | None \<Rightarrow> hierarchical_where rx_where_in xquery_string)"

definition read_condition :: "string \<Rightarrow> string option" where
  "read_condition xquery_string =
     (case re_search rx_find_call xquery_string [IGNORECASE, DOTALL] of
        Some m \<Rightarrow> nonempty (strip (grp m 2))
      | None \<Rightarrow>
          (case re_search rx_for xquery_string [IGNORECASE, DOTALL] of
             Some m \<Rightarrow> hierarchical_where rx_where_order (strip (grp m 3))
           | None \<Rightarrow> None))"

definition condition_clause :: "string \<Rightarrow> string option" where
  "condition_clause xquery_string0 =
     (let xquery_string = strip xquery_string0 in
      if insert_cue xquery_string then None
      else if update_cue xquery_string then update_condition xquery_string
      else if delete_cue xquery_string then delete_condition xquery_string
      else if read_cue xquery_string then read_condition xquery_string
      else None)"

section \<open>Library values for the examples\<close>

text \<open>
  The values of \<open>json.loads\<close>, \<open>eval\<close> and \<open>etree.fromstring\<close> on the literals that occur
  in the examples of this development; any other text is taken not to parse.
\<close>

definition example_json :: "(string \<times> json) list" where
  "example_json =
     [(''{}'', JObj []),
      (''{\"a\": 1}'', JObj [(''a'', JInt 1)]),
      (''{\"a\": \",}\"}'', JObj [(''a'', JStr '',}'')]),
      (''{\"a\": \"}\"}'', JObj [(''a'', JStr ''}'')]),
      (''{\"note\": \"$set\"}'', JObj [(''note'', JStr ''$set'')]),
      (''{\"$set\": {\"a\": 1}}'', JObj [(''$set'', JObj [(''a'', JInt 1)])]),
      (''{\"age\": 18}'', JObj [(''age'', JInt 18)]),
      (''{\"name\":\"John\",\"age\":30}'', JObj [(''name'', JStr ''John''), (''age'', JInt 30)])]"

definition example_eval :: "(string \<times> json) list" where
  "example_eval =
     [(''{\"title\": \"New Book\"}'', JObj [(''title'', JStr ''New Book'')]),
      (''{\"_id\": 7, \"a\": 1}'', JObj [(''_id'', JInt 7), (''a'', JInt 1)])]"

definition example_xml :: "(string \<times> xml) list" where
  "example_xml =
     [(''<user><name>John</name><age>30</age></user>'',
       Element ''user'' [] None
         [Element ''name'' [] (Some ''John'') [], Element ''age'' [] (Some ''30'') []])]"

definition examples :: library where
  "examples = \<lparr>json_loads = map_of example_json,
                etree_fromstring = map_of example_xml,
                py_eval = map_of example_eval\<rparr>"

section \<open>Path Resolver: the shapes it resolves\<close>

lemma split_on_nonempty: "split_on sep s \<noteq> []"
  by (induction s) (auto split: list.splits)

lemma join_split_on: "join [b] (split_on a s) = replace_chr a b s"
proof (induction s)
  case Nil
  show ?case by (simp add: replace_chr_def)
next
  case (Cons x xs)
  obtain y ys where sp: "split_on a xs = y # ys"
    using split_on_nonempty [of a xs] by (cases "split_on a xs") auto
  show ?case
  proof (cases "x = a")
    case True
    with Cons sp show ?thesis by (simp add: replace_chr_def)
  next
    case False
    with Cons sp show ?thesis by (cases ys) (auto simp: replace_chr_def)
  qed
qed

text \<open>
  Claim C6, as stated, asks that a path that neither begins with the context variable
  and a slash nor is the bare context variable be rejected. \<open>_parse_path\<close> has no
  failure branch: the path \<open>$v/age\<close> under the context variable \<open>u\<close> is of neither
  shape and is resolved to the field path \<open>$v.age\<close>.
\<close>

theorem path_other_shape_counterexample:
  "\<not> startswith ''$v/age'' ''$u/'' \<and> ''$v/age'' \<noteq> ''$u'' \<and>
   parse_path ''$v/age'' ''u'' = ''$v.age''"
  by code_simp

text \<open>
  Claim C6, amended: a path that begins with the context variable and a slash resolves
  to the segments after that prefix joined with dots; the bare context variable
  resolves to the reserved identifier field \<open>_id\<close>; a path of any other shape is not
  rejected but resolved to its own slash-separated segments joined with dots.
\<close>

theorem path_resolver_cases:
  "(startswith path (CHR ''$'' # context_var @ ''/'') \<longrightarrow>
      parse_path path context_var =
        join ''.'' (split_on (CHR ''/'') (drop (length (CHR ''$'' # context_var @ ''/'')) path))) \<and>
   (path = CHR ''$'' # context_var \<longrightarrow> parse_path path context_var = ''_id'') \<and>
   (\<not> startswith path (CHR ''$'' # context_var @ ''/'') \<and> path \<noteq> CHR ''$'' # context_var \<longrightarrow>
      parse_path path context_var = join ''.'' (split_on (CHR ''/'') path))"
  by (auto simp: parse_path_def Let_def join_split_on startswith_def)

theorem path_resolver_cases_witness:
  "startswith ''$u/address/city'' (CHR ''$'' # ''u'' @ ''/'') \<and>
   parse_path ''$u/address/city'' ''u'' = ''address.city'' \<and>
   parse_path ''$u'' ''u'' = ''_id'' \<and>
   \<not> startswith ''name/first'' (CHR ''$'' # ''u'' @ ''/'') \<and> ''name/first'' \<noteq> CHR ''$'' # ''u'' \<and>
   parse_path ''name/first'' ''u'' = ''name.first''"
proof -
  have a: "startswith ''$u/address/city'' (CHR ''$'' # ''u'' @ ''/'')" by code_simp
  have b: "\<not> startswith ''name/first'' (CHR ''$'' # ''u'' @ ''/'')" by code_simp
  have c: "''name/first'' \<noteq> CHR ''$'' # ''u''" by simp
  have j1: "join ''.'' (split_on (CHR ''/'')
              (drop (length (CHR ''$'' # ''u'' @ ''/'')) ''$u/address/city'')) = ''address.city''"
    by code_simp
  have j2: "join ''.'' (split_on (CHR ''/'') ''name/first'') = ''name.first''" by code_simp
  from path_resolver_cases [of "''$u/address/city''" "''u''"] a j1
  have 1: "parse_path ''$u/address/city'' ''u'' = ''address.city''" by simp
  from path_resolver_cases [of "''$u''" "''u''"]
  have 2: "parse_path ''$u'' ''u'' = ''_id''" by simp
  from path_resolver_cases [of "''name/first''" "''u''"] b c j2
  have 3: "parse_path ''name/first'' ''u'' = ''name.first''" by simp
  from a b c 1 2 3 show ?thesis by simp
qed

section \<open>Predicate Engine: the symbolic comparators with an equals sign\<close>

text \<open>
  Claim C5 asks that a fragment with the comparator \<open>>=\<close> yield a \<open>$gte\<close> entry with the
  resolved value, and one with \<open><=\<close> a \<open>$lte\<close> entry. The source tries the pattern of
  \<open>>\<close> before that of \<open>>=\<close> and the pattern of \<open><\<close> before that of \<open><=\<close>, so the
  fragments \<open>$u/age >= 18\<close> and \<open>$u/age <= 18\<close> yield \<open>$gt\<close> and \<open>$lt\<close> entries whose value
  is the text \<open>= 18\<close>, while the keyword forms \<open>ge\<close> and \<open>le\<close> yield the entries asked
  for.
\<close>

theorem symbolic_ge_le_evaluation:
  "parse_single_condition ''$u/age >= 18'' ''u'' = Inr [(''age'', JObj [(''$gt'', JStr ''= 18'')])] \<and>
   parse_single_condition ''$u/age <= 18'' ''u'' = Inr [(''age'', JObj [(''$lt'', JStr ''= 18'')])] \<and>
   parse_single_condition ''$u/age ge 18'' ''u'' = Inr [(''age'', JObj [(''$gte'', JInt 18)])] \<and>
   parse_single_condition ''$u/age le 18'' ''u'' = Inr [(''age'', JObj [(''$lte'', JInt 18)])]"
  by code_simp

section \<open>Value Resolver: resolving a resolved value again\<close>






















section \<open>Predicate Engine: one key for each fragment\<close>


















section \<open>Read parser: the projection of explicitly referenced fields\<close>








section \<open>Statement parsers: the filter when no condition clause is present\<close>

lemma cleanup_empty: "re_sub rx_comma_brace ''}'' [] [] = []"
  by code_simp

lemma build_query_absent:
  "hierarchical_where r t = None \<Longrightarrow> build_query (where_clause_of r t) v = Inr []"
  by (auto simp: hierarchical_where_def build_query_def nonempty_def split: option.splits if_splits)

lemma parse_insert_no_filter: "parse_insert lib x = Inr opn \<Longrightarrow> op_filter opn = None"
  by (auto simp: parse_insert_def Let_def op_filter_def split: option.splits if_splits)

lemma update_node_absent:
  assumes "hierarchical_where rx_where_in x = None" and "update_node x m rd = Inr opn"
  shows "op_filter opn = Some (JObj [])"
  using assms(2) build_query_absent [OF assms(1)]
  by (auto simp: update_node_def Let_def op_filter_def split: option.splits sum.splits)

lemma parse_update_absent:
  assumes "json_loads lib [] = None" and "update_condition x = None" and "parse_update lib x = Inr opn"
  shows "op_filter opn = Some (JObj [])"
proof (cases "re_search rx_update_call x [IGNORECASE, DOTALL]")
  case (Some m)
  with assms(2) have "strip (grp m 2) = []"
    by (simp add: update_condition_def nonempty_def split: if_splits)
  with Some assms(1,3) show ?thesis
    by (simp add: parse_update_def update_call_def Let_def cleanup_empty)
next
  case None
  with assms(2) have w: "hierarchical_where rx_where_in x = None"
    by (simp add: update_condition_def)
  from None assms(3) show ?thesis
    by (auto simp: parse_update_def split: option.splits intro: update_node_absent [OF w])
qed

lemma parse_delete_absent:
  assumes "json_loads lib [] = None" and "delete_condition x = None" and "parse_delete lib x = Inr opn"
  shows "op_filter opn = Some (JObj [])"
proof (cases "re_search rx_remove_call x [IGNORECASE, DOTALL]")
  case (Some m)
  with assms(2) have "strip (grp m 2) = []"
    by (simp add: delete_condition_def nonempty_def split: if_splits)
  with Some assms(1,3) show ?thesis
    by (simp add: parse_delete_def Let_def cleanup_empty)
next
  case None
  with assms(2) have w: "hierarchical_where rx_where_in x = None"
    by (simp add: delete_condition_def)
  from None assms(3) build_query_absent [OF w] show ?thesis
    by (auto simp: parse_delete_def Let_def op_filter_def split: option.splits sum.splits)
qed

lemma parse_read_absent:
  assumes "read_condition x = None" and "parse_read lib self x = (Inr opn, self')"
  shows "op_filter opn = Some (JObj [])"
proof (cases "re_search rx_find_call x [IGNORECASE, DOTALL]")
  case (Some m)
  with assms(1) have "strip (grp m 2) = []"
    by (simp add: read_condition_def nonempty_def split: if_splits)
  with Some assms(2) show ?thesis
    by (auto simp: parse_read_def find_call_def Let_def cleanup_empty op_filter_def)
next
  case None
  show ?thesis
  proof (cases "re_search rx_for x [IGNORECASE, DOTALL]")
    case (Some m)
    with None assms(1) have w: "hierarchical_where rx_where_order (strip (grp m 3)) = None"
      by (simp add: read_condition_def)
    from None Some assms(2) build_query_absent [OF w] show ?thesis
      by (auto simp: parse_read_def Let_def op_filter_def split: sum.splits)
  next
    case None': None
    with None assms(2) show ?thesis by (simp add: parse_read_def)
  qed
qed

text \<open>
  Claim C8: when a statement is translated, no condition clause is present in it (no
  where clause in a hierarchical form, no filter literal in a shorthand form) and the
  operation has a filter (it is a Read, an Update or a Delete), the filter is the
  empty map. \<open>json.loads\<close> rejects the empty text, so a shorthand update or delete
  without a filter literal is not translated at all.
\<close>

theorem empty_predicate:
  assumes "json_loads lib [] = None"
      and "condition_clause s = None"
      and "parse_xquery lib self s = (Inr opn, self')"
      and "op_filter opn = Some flt"
  shows "flt = JObj []"
proof -
  let ?x = "strip s"
  consider (ins) "insert_cue ?x"
    | (upd) "\<not> insert_cue ?x" "update_cue ?x"
    | (del) "\<not> insert_cue ?x" "\<not> update_cue ?x" "delete_cue ?x"
    | (rd) "\<not> insert_cue ?x" "\<not> update_cue ?x" "\<not> delete_cue ?x" "read_cue ?x"
    | (none) "\<not> insert_cue ?x" "\<not> update_cue ?x" "\<not> delete_cue ?x" "\<not> read_cue ?x"
    by blast
  then show ?thesis
  proof cases
    case ins
    with assms(3) have "parse_insert lib ?x = Inr opn" by (simp add: parse_xquery_def Let_def)
    from parse_insert_no_filter [OF this] assms(4) show ?thesis by simp
  next
    case upd
    with assms(2,3) have "update_condition ?x = None" and "parse_update lib ?x = Inr opn"
      by (simp_all add: parse_xquery_def condition_clause_def Let_def)
    from parse_update_absent [OF assms(1) this] assms(4) show ?thesis by simp
  next
    case del
    with assms(2,3) have "delete_condition ?x = None" and "parse_delete lib ?x = Inr opn"
      by (simp_all add: parse_xquery_def condition_clause_def Let_def)
    from parse_delete_absent [OF assms(1) this] assms(4) show ?thesis by simp
  next
    case rd
    with assms(2,3) have "read_condition ?x = None" and "parse_read lib self ?x = (Inr opn, self')"
      by (simp_all add: parse_xquery_def condition_clause_def Let_def)
    from parse_read_absent [OF this] assms(4) show ?thesis by simp
  next
    case none
    with assms(3) show ?thesis by (simp add: parse_xquery_def Let_def)
  qed
qed

theorem empty_predicate_witness:
  "fst (parse_xquery examples init ''for $u in collection(\"users\") return $u/name'') =
     Inr (Find ''users'' (JObj []) None (Some [(''name'', 1), (''_id'', 0)])) \<and>
   fst (parse_xquery examples init ''db.collection(\"users\").find()'') =
     Inr (Find ''users'' (JObj []) None None) \<and>
   fst (parse_xquery examples init ''delete node $u in collection(\"users\")'') =
     Inr (DeleteMany ''users'' (JObj [])) \<and>
   fst (parse_xquery examples init ''update value $u/age with 31 in collection(\"users\")'') =
     Inr (UpdateMany ''users'' (JObj []) (JObj [(''$set'', JObj [(''age'', JInt 31)])]))"
proof -
  let ?s1 = "''for $u in collection(\"users\") return $u/name''"
  let ?s2 = "''db.collection(\"users\").find()''"
  let ?s3 = "''delete node $u in collection(\"users\")''"
  let ?s4 = "''update value $u/age with 31 in collection(\"users\")''"
  have j: "json_loads examples [] = None" by code_simp
  have c1: "condition_clause ?s1 = None" by code_simp
  have c2: "condition_clause ?s2 = None" by code_simp
  have c3: "condition_clause ?s3 = None" by code_simp
  have c4: "condition_clause ?s4 = None" by code_simp
  have "case fst (parse_xquery examples init ?s1) of
          Inr (Find c f srt prj) \<Rightarrow> c = ''users'' \<and> srt = None \<and> prj = Some [(''name'', 1), (''_id'', 0)]
        | _ \<Rightarrow> False"
    by code_simp
  then obtain f1 where
    p1: "fst (parse_xquery examples init ?s1) =
           Inr (Find ''users'' f1 None (Some [(''name'', 1), (''_id'', 0)]))"
    by (auto split: sum.splits operation.splits)
  have "case fst (parse_xquery examples init ?s2) of
          Inr (Find c f srt prj) \<Rightarrow> c = ''users'' \<and> srt = None \<and> prj = None
        | _ \<Rightarrow> False"
    by code_simp
  then obtain f2 where p2: "fst (parse_xquery examples init ?s2) = Inr (Find ''users'' f2 None None)"
    by (auto split: sum.splits operation.splits)
  have "case fst (parse_xquery examples init ?s3) of
          Inr (DeleteMany c f) \<Rightarrow> c = ''users''
        | _ \<Rightarrow> False"
    by code_simp
  then obtain f3 where p3: "fst (parse_xquery examples init ?s3) = Inr (DeleteMany ''users'' f3)"
    by (auto split: sum.splits operation.splits)
  have "case fst (parse_xquery examples init ?s4) of
          Inr (UpdateMany c f u) \<Rightarrow> c = ''users'' \<and> u = JObj [(''$set'', JObj [(''age'', JInt 31)])]
        | _ \<Rightarrow> False"
    by code_simp
  then obtain f4 where
    p4: "fst (parse_xquery examples init ?s4) =
           Inr (UpdateMany ''users'' f4 (JObj [(''$set'', JObj [(''age'', JInt 31)])]))"
    by (auto split: sum.splits operation.splits)
  have e1: "f1 = JObj []"
  proof -
    obtain r t where q: "parse_xquery examples init ?s1 = (r, t)" by (rule prod.exhaust)
    with p1 have "parse_xquery examples init ?s1 = (Inr (Find ''users'' f1 None (Some [(''name'', 1), (''_id'', 0)])), t)" by simp
    from empty_predicate [OF j c1 this] show ?thesis by (simp add: op_filter_def)
  qed
  have e2: "f2 = JObj []"
  proof -
    obtain r t where q: "parse_xquery examples init ?s2 = (r, t)" by (rule prod.exhaust)
    with p2 have "parse_xquery examples init ?s2 = (Inr (Find ''users'' f2 None None), t)" by simp
    from empty_predicate [OF j c2 this] show ?thesis by (simp add: op_filter_def)
  qed
  have e3: "f3 = JObj []"
  proof -
    obtain r t where q: "parse_xquery examples init ?s3 = (r, t)" by (rule prod.exhaust)
    with p3 have "parse_xquery examples init ?s3 = (Inr (DeleteMany ''users'' f3), t)" by simp
    from empty_predicate [OF j c3 this] show ?thesis by (simp add: op_filter_def)
  qed
  have e4: "f4 = JObj []"
  proof -
    obtain r t where q: "parse_xquery examples init ?s4 = (r, t)" by (rule prod.exhaust)
    with p4 have "parse_xquery examples init ?s4 = (Inr (UpdateMany ''users'' f4 (JObj [(''$set'', JObj [(''age'', JInt 31)])])), t)" by simp
    from empty_predicate [OF j c4 this] show ?thesis by (simp add: op_filter_def)
  qed
  from p1 p2 p3 p4 show ?thesis unfolding e1 e2 e3 e4 by (intro conjI)
qed

section \<open>Dialect Router: the order of the cues\<close>

text \<open>
  Claim C2: the router tries the cues in the order Insert, Update, Delete, Read on the
  stripped statement and hands it to the parser of the first cue that matches,
  whatever later cues match too; when no cue matches, the translation fails with
  \<open>UnsupportedStatement\<close> and yields no operation.
\<close>

theorem router_priority:
  "(insert_cue (strip s) \<longrightarrow>
      parse_xquery lib self s = (parse_insert lib (strip s), self)) \<and>
   (\<not> insert_cue (strip s) \<and> update_cue (strip s) \<longrightarrow>
      parse_xquery lib self s = (parse_update lib (strip s), self)) \<and>
   (\<not> insert_cue (strip s) \<and> \<not> update_cue (strip s) \<and> delete_cue (strip s) \<longrightarrow>
      parse_xquery lib self s = (parse_delete lib (strip s), self)) \<and>
   (\<not> insert_cue (strip s) \<and> \<not> update_cue (strip s) \<and> \<not> delete_cue (strip s) \<and>
    read_cue (strip s) \<longrightarrow>
      parse_xquery lib self s = parse_read lib self (strip s)) \<and>
   (\<not> insert_cue (strip s) \<and> \<not> update_cue (strip s) \<and> \<not> delete_cue (strip s) \<and>
    \<not> read_cue (strip s) \<longrightarrow>
      parse_xquery lib self s = (Inl UnsupportedStatement, self))"
  by (simp add: parse_xquery_def Let_def)

theorem router_priority_witness:
  "insert_cue ''insert node {\"a\": 1} into collection(\"c\") update value delete node for $u in collection'' \<and>
   update_cue ''insert node {\"a\": 1} into collection(\"c\") update value delete node for $u in collection'' \<and>
   delete_cue ''insert node {\"a\": 1} into collection(\"c\") update value delete node for $u in collection'' \<and>
   read_cue ''insert node {\"a\": 1} into collection(\"c\") update value delete node for $u in collection'' \<and>
   parse_xquery examples init
     ''insert node {\"a\": 1} into collection(\"c\") update value delete node for $u in collection'' =
     (Inr (InsertOne ''c'' (JObj [(''a'', JInt 1)])), init) \<and>
   parse_xquery examples init ''SELECT name FROM users'' = (Inl UnsupportedStatement, init)"
proof -
  let ?s = "''insert node {\"a\": 1} into collection(\"c\") update value delete node for $u in collection''"
  let ?t = "''SELECT name FROM users''"
  have st: "strip ?s = ?s" by code_simp
  have tt: "strip ?t = ?t" by code_simp
  have i: "insert_cue ?s" by code_simp
  have u: "update_cue ?s" by code_simp
  have d: "delete_cue ?s" by code_simp
  have r: "read_cue ?s" by code_simp
  have p: "parse_insert examples ?s = Inr (InsertOne ''c'' (JObj [(''a'', JInt 1)]))" by code_simp
  have n: "\<not> insert_cue ?t" "\<not> update_cue ?t" "\<not> delete_cue ?t" "\<not> read_cue ?t"
    by code_simp+
  have i': "insert_cue (strip ?s)" unfolding st by (rule i)
  have "parse_xquery examples init ?s = (parse_insert examples (strip ?s), init)"
    by (rule router_priority [of ?s examples init, THEN conjunct1, THEN mp, OF i'])
  then have 1: "parse_xquery examples init ?s = (Inr (InsertOne ''c'' (JObj [(''a'', JInt 1)])), init)"
    unfolding st p .
  have n': "\<not> insert_cue (strip ?t) \<and> \<not> update_cue (strip ?t) \<and> \<not> delete_cue (strip ?t) \<and>
        \<not> read_cue (strip ?t)"
    unfolding tt by (intro conjI n)
  have 2: "parse_xquery examples init ?t = (Inl UnsupportedStatement, init)"
    by (rule router_priority [of ?t examples init, THEN conjunct2, THEN conjunct2, THEN conjunct2,
          THEN conjunct2, THEN mp, OF n'])
  show ?thesis by (intro conjI i u d r 1 2)
qed

section \<open>The binding table and the results\<close>

lemma parse_xquery_result:
  "fst (parse_xquery lib self s) = fst (parse_xquery lib self2 s)"
  by (simp add: parse_xquery_def parse_read_def Let_def split: option.splits sum.splits)

text \<open>
  Claim C10: the result of translating a statement (an operation or a failure) on a
  converter that has translated any list of statements before is the result on a
  freshly constructed converter, and so is the same for any two states of the binding
  table; the table is written by the iteration clause of a Read statement.
\<close>

theorem binding_table_never_read:
  "fst (parse_xquery lib (snd (parse_all lib init history)) s) = fst (parse_xquery lib init s) \<and>
   fst (parse_xquery lib self1 s) = fst (parse_xquery lib self2 s) \<and>
   snd (parse_xquery lib init ''for $u in collection(\"users\")'') = \<lparr>var_mappings = [(''u'', ''users'')]\<rparr>"
proof (intro conjI)
  show "fst (parse_xquery lib (snd (parse_all lib init history)) s) = fst (parse_xquery lib init s)"
    by (rule parse_xquery_result)
  show "fst (parse_xquery lib self1 s) = fst (parse_xquery lib self2 s)"
    by (rule parse_xquery_result)
  have "snd (parse_xquery examples init ''for $u in collection(\"users\")'') =
          \<lparr>var_mappings = [(''u'', ''users'')]\<rparr>"
    by code_simp
  moreover have "snd (parse_xquery lib init t) = snd (parse_xquery examples init t)" for t
    by (simp add: parse_xquery_def parse_read_def Let_def split: option.splits sum.splits)
  ultimately show "snd (parse_xquery lib init ''for $u in collection(\"users\")'') =
          \<lparr>var_mappings = [(''u'', ''users'')]\<rparr>"
    by simp
qed

theorem binding_table_never_read_witness:
  "snd (parse_all examples init [''for $u in collection(\"users\")'', ''SELECT 1'']) =
     \<lparr>var_mappings = [(''u'', ''users'')]\<rparr> \<and>
   fst (parse_xquery examples \<lparr>var_mappings = [(''u'', ''users'')]\<rparr>
          ''for $u in collection(\"orders\") return $u/total'') =
   fst (parse_xquery examples init ''for $u in collection(\"orders\") return $u/total'') \<and>
   fst (parse_xquery examples init ''for $u in collection(\"orders\") return $u/total'') =
     Inr (Find ''orders'' (JObj []) None (Some [(''total'', 1), (''_id'', 0)]))"
proof -
  let ?h = "[''for $u in collection(\"users\")'', ''SELECT 1'']"
  let ?s = "''for $u in collection(\"orders\") return $u/total''"
  have a: "snd (parse_all examples init ?h) = \<lparr>var_mappings = [(''u'', ''users'')]\<rparr>"
    by code_simp
  have b: "fst (parse_xquery examples init ?s) =
             Inr (Find ''orders'' (JObj []) None (Some [(''total'', 1), (''_id'', 0)]))"
    by code_simp
  have "fst (parse_xquery examples (snd (parse_all examples init ?h)) ?s) =
        fst (parse_xquery examples init ?s)"
    by (rule binding_table_never_read [of examples ?h ?s, THEN conjunct1])
  then have c: "fst (parse_xquery examples \<lparr>var_mappings = [(''u'', ''users'')]\<rparr> ?s) =
        fst (parse_xquery examples init ?s)"
    unfolding a .
  show ?thesis by (intro conjI a b c)
qed

section \<open>Insert parser: the document and the literal\<close>

lemma re_sub_no_match: "re_search r w fl = None \<Longrightarrow> re_sub r repl w fl = w"
  by (simp add: re_sub_def re_search_def re_scan.simps)

text \<open>
  Claim C3, as stated, asks that an Insert statement of the hierarchical dialect yield
  the literal plus a forced identifier field. The hierarchical form of \<open>_parse_insert\<close>
  has no document key to force: \<open>insert node {"a": 1} into collection("c")\<close> yields
  exactly the literal, which has no \<open>_id\<close> field.
\<close>

theorem hierarchical_insert_counterexample:
  "parse_xquery examples init ''insert node {\"a\": 1} into collection(\"c\")'' =
     (Inr (InsertOne ''c'' (JObj [(''a'', JInt 1)])), init) \<and>
   json_loads examples ''{\"a\": 1}'' = Some (JObj [(''a'', JInt 1)]) \<and>
   map_of [(''a'', JInt 1)] ''_id'' = None"
  by code_simp

text \<open>
  Claim C3, amended: for an Insert statement that supplies a valid structured document
  literal, (1) the shorthand form \<open>db.collection(name).insert(literal)\<close> yields exactly
  the literal when its text has no comma followed by optional white space and a
  closing brace or bracket; (2) the hierarchical form
  \<open>insert node literal into collection(name)\<close> yields exactly the literal, with no
  identifier field added; (3) the form \<open>xdmp:document-insert("key", literal)\<close> of
  \<open>convert_xquery_to_mongo\<close> yields the literal with its field \<open>_id\<close> set to the key.
\<close>

theorem insert_round_trip:
  "(re_search rx_insert_call x [IGNORECASE, DOTALL] = Some m \<and>
    re_search rx_comma_brace (strip (grp m 2)) [] = None \<and>
    re_search rx_comma_bracket (strip (grp m 2)) [] = None \<and>
    json_loads lib (strip (grp m 2)) = Some doc \<longrightarrow>
      parse_insert lib x = Inr (InsertOne (grp m 1) doc)) \<and>
   (re_search rx_insert_call x [IGNORECASE, DOTALL] = None \<and>
    re_search rx_insert_node x [IGNORECASE, DOTALL] = Some m \<and>
    startswith (strip (grp m 1)) ''{'' \<and> endswith (strip (grp m 1)) ''}'' \<and>
    json_loads lib (strip (grp m 1)) = Some doc \<longrightarrow>
      parse_insert lib x = Inr (InsertOne (grp m 2) doc)) \<and>
   (contains_str ''xdmp:document-insert'' x \<and>
    re_search rx_xdmp_insert x [] = Some m \<and>
    py_eval lib (grp m 2) = Some (JObj d) \<longrightarrow>
      convert_xquery_to_mongo lib x = Inr (QInsert (JObj (dict_set ''_id'' (JStr (grp m 1)) d))) \<and>
      map_of (dict_set ''_id'' (JStr (grp m 1)) d) = (map_of d)(''_id'' \<mapsto> JStr (grp m 1)))"
  by (auto simp: parse_insert_def convert_xquery_to_mongo_def Let_def re_sub_no_match
        dict_set_def update_conv')

theorem insert_round_trip_witness:
  "parse_insert examples ''db.collection(\"c\").insert({\"a\": 1})'' =
     Inr (InsertOne ''c'' (JObj [(''a'', JInt 1)])) \<and>
   parse_insert examples ''insert node {\"name\":\"John\",\"age\":30} into collection(\"users\")'' =
     Inr (InsertOne ''users'' (JObj [(''name'', JStr ''John''), (''age'', JInt 30)])) \<and>
   convert_xquery_to_mongo examples
       ''xdmp:document-insert(\"/books/newbook.xml\", {\"title\": \"New Book\"})'' =
     Inr (QInsert (JObj [(''title'', JStr ''New Book''), (''_id'', JStr ''/books/newbook.xml'')]))"
proof -
  let ?a = "''db.collection(\"c\").insert({\"a\": 1})''"
  let ?b = "''insert node {\"name\":\"John\",\"age\":30} into collection(\"users\")''"
  let ?c = "''xdmp:document-insert(\"/books/newbook.xml\", {\"title\": \"New Book\"})''"
  have "map_option (\<lambda>m. (grp m 1, strip (grp m 2))) (re_search rx_insert_call ?a [IGNORECASE, DOTALL]) =
          Some (''c'', ''{\"a\": 1}'')"
    by code_simp
  then obtain ma where ma: "re_search rx_insert_call ?a [IGNORECASE, DOTALL] = Some ma"
    and ma1: "grp ma 1 = ''c''" and ma2: "strip (grp ma 2) = ''{\"a\": 1}''"
    by auto
  have a1: "re_search rx_comma_brace ''{\"a\": 1}'' [] = None" by code_simp
  have a2: "re_search rx_comma_bracket ''{\"a\": 1}'' [] = None" by code_simp
  have a3: "json_loads examples ''{\"a\": 1}'' = Some (JObj [(''a'', JInt 1)])" by code_simp
  have 1: "parse_insert examples ?a = Inr (InsertOne ''c'' (JObj [(''a'', JInt 1)]))"
    using insert_round_trip [of ?a ma examples "JObj [(''a'', JInt 1)]", THEN conjunct1]
      ma ma1 ma2 a1 a2 a3
    by simp
  have b0: "re_search rx_insert_call ?b [IGNORECASE, DOTALL] = None" by code_simp
  have "map_option (\<lambda>m. (strip (grp m 1), grp m 2)) (re_search rx_insert_node ?b [IGNORECASE, DOTALL]) =
          Some (''{\"name\":\"John\",\"age\":30}'', ''users'')"
    by code_simp
  then obtain mb where mb: "re_search rx_insert_node ?b [IGNORECASE, DOTALL] = Some mb"
    and mb1: "strip (grp mb 1) = ''{\"name\":\"John\",\"age\":30}''" and mb2: "grp mb 2 = ''users''"
    by auto
  have b1: "startswith ''{\"name\":\"John\",\"age\":30}'' ''{''" by code_simp
  have b2: "endswith ''{\"name\":\"John\",\"age\":30}'' ''}''" by code_simp
  have b3: "json_loads examples ''{\"name\":\"John\",\"age\":30}'' =
              Some (JObj [(''name'', JStr ''John''), (''age'', JInt 30)])"
    by code_simp
  have 2: "parse_insert examples ?b =
             Inr (InsertOne ''users'' (JObj [(''name'', JStr ''John''), (''age'', JInt 30)]))"
    using insert_round_trip [of ?b mb examples "JObj [(''name'', JStr ''John''), (''age'', JInt 30)]",
        THEN conjunct2, THEN conjunct1]
      b0 mb mb1 mb2 b1 b2 b3
    by simp
  have c0: "contains_str ''xdmp:document-insert'' ?c" by code_simp
  have "map_option (\<lambda>m. (grp m 1, grp m 2)) (re_search rx_xdmp_insert ?c []) =
          Some (''/books/newbook.xml'', ''{\"title\": \"New Book\"}'')"
    by code_simp
  then obtain mc where mc: "re_search rx_xdmp_insert ?c [] = Some mc"
    and mc1: "grp mc 1 = ''/books/newbook.xml''" and mc2: "grp mc 2 = ''{\"title\": \"New Book\"}''"
    by auto
  have c3: "py_eval examples ''{\"title\": \"New Book\"}'' = Some (JObj [(''title'', JStr ''New Book'')])"
    by code_simp
  have c4: "dict_set ''_id'' (JStr ''/books/newbook.xml'') [(''title'', JStr ''New Book'')] =
              [(''title'', JStr ''New Book''), (''_id'', JStr ''/books/newbook.xml'')]"
    by code_simp
  have h: "contains_str ''xdmp:document-insert'' ?c \<and>
           re_search rx_xdmp_insert ?c [] = Some mc \<and>
           py_eval examples (grp mc 2) = Some (JObj [(''title'', JStr ''New Book'')])"
    unfolding mc2 by (intro conjI c0 mc c3)
  have "convert_xquery_to_mongo examples ?c =
          Inr (QInsert (JObj (dict_set ''_id'' (JStr (grp mc 1)) [(''title'', JStr ''New Book'')])))"
    by (rule insert_round_trip [where x = ?c and m = mc and lib = examples
          and d = "[(''title'', JStr ''New Book'')]",
          THEN conjunct2, THEN conjunct2, THEN mp, OF h, THEN conjunct1])
  then have 3: "convert_xquery_to_mongo examples ?c =
             Inr (QInsert (JObj [(''title'', JStr ''New Book''), (''_id'', JStr ''/books/newbook.xml'')]))"
    unfolding mc1 c4 .
  show ?thesis by (intro conjI 1 2 3)
qed

text \<open>
  The text that the amended claim leaves out: the trailing-comma clean-up of the
  shorthand form rewrites the statement text before it is parsed, also inside a string
  of the literal.
\<close>

lemma shorthand_insert_cleanup_example:
  "parse_insert examples ''db.collection(\"c\").insert({\"a\": \",}\"})'' =
     Inr (InsertOne ''c'' (JObj [(''a'', JStr ''}'')])) \<and>
   json_loads examples ''{\"a\": \",}\"}'' = Some (JObj [(''a'', JStr '',}'')])"
  by code_simp

section \<open>Update parser: the modifier argument of the shorthand form\<close>

text \<open>
  Claim C4 asks that the modifier argument of a shorthand update be used verbatim when
  the literal contains a recognised modifier key and be wrapped under \<open>$set\<close>
  otherwise. The source decides by looking for the quoted text \<open>"$set"\<close>, \<open>"$inc"\<close> or
  \<open>"$push"\<close> anywhere in the argument: the literal \<open>{"note": "$set"}\<close> has the single
  key \<open>note\<close>, no modifier key, and is used verbatim instead of being wrapped. A
  literal with the key \<open>$set\<close> passes through unchanged and a literal without such text
  is wrapped, as the claim says.
\<close>

theorem modifier_text_evaluation:
  "parse_xquery examples init ''db.collection(\"c\").update({}, {\"note\": \"$set\"})'' =
     (Inr (UpdateMany ''c'' (JObj []) (JObj [(''note'', JStr ''$set'')])), init) \<and>
   json_loads examples ''{\"note\": \"$set\"}'' = Some (JObj [(''note'', JStr ''$set'')]) \<and>
   has_modifier_key (JObj [(''note'', JStr ''$set'')]) = False \<and>
   parse_xquery examples init ''db.collection(\"c\").update({}, {\"$set\": {\"a\": 1}})'' =
     (Inr (UpdateMany ''c'' (JObj []) (JObj [(''$set'', JObj [(''a'', JInt 1)])])), init) \<and>
   parse_xquery examples init ''db.collection(\"c\").update({}, {\"a\": 1})'' =
     (Inr (UpdateMany ''c'' (JObj []) (JObj [(''$set'', JObj [(''a'', JInt 1)])])), init)"
  by code_simp

end
